theory Spec2Isabelle
  imports Complex_Main
begin

section \<open>Data model of the qaEventTrack task (DPG/Tasks/qaEventTrack.cxx)\<close>

text \<open>
  The embedding follows the table-producing path of the task: \<open>init\<close>,
  \<open>isSelectedCollision\<close>, \<open>isSelectedTrack\<close> and \<open>fillDerivedTable\<close>.
  Conventions:
  \<^item> C++ \<open>float\<close> columns and configurables are real numbers; every finite float is a
    real, comparisons of floats are exact, and the two float computations that are copied
    into an output row (\<open>pt * sqrt(c1Pt21Pt2)\<close>, \<open>tofSignal - tofEvTime\<close>) are written
    without rounding.
  \<^item> C++ integer columns, configurables and counters are \<open>int\<close>, a 32-bit C++
    \<open>int\<close> being an integer from \<open>-2147483648\<close> to \<open>2147483647\<close>. The
    arithmetic on them is \<open>std::abs\<close> of the PDG code, the increment of the event
    counter, and the increments of the loop counters, which are bounded by the number of
    tracks. The first two can leave the range of an \<open>int\<close>; their result is reduced
    to that range by \<open>int32\<close>, the two's complement wrap-around of the compiled
    code. The counter does not wrap for a target below the largest \<open>int\<close>
    (lemma \<open>fillDerivedTable_counter_range\<close>).
  \<^item> An index column with its \<open>has_...\<close> test is an \<open>option\<close>.
  \<^item> A \<open>Produces<...>\<close> cursor is the list of the rows appended so far; its
    \<open>lastIndex()\<close> is the position of the last appended row; \<open>reserve\<close> is a
    capacity hint and has no counterpart.
\<close>

text \<open>The configurables read by the table-producing path.\<close>

record Config =
  isRun3 :: bool
  selectGoodEvents :: bool
  selectMaxVtxZ :: real
  targetNumberOfEvents :: int
  fractionOfSampledEvents :: real
  selectCharge :: int
  selectPrim :: bool
  selectSec :: bool
  selectPID :: int

text \<open>The process switches read by \<open>init\<close>.\<close>

record Switches =
  doprocessData :: bool
  doprocessMC :: bool
  doprocessTableData :: bool
  doprocessTableMC :: bool

text \<open>
  A row of \<open>aod::McParticles\<close>: \<open>globalIndex\<close> is the row number in the table,
  \<open>mcCollisionId\<close> the index of the truth collision the particle belongs to.
\<close>

record McParticle =
  globalIndex :: int
  mcCollisionId :: int
  isPhysicalPrimary :: bool
  getProcess :: int
  pdgCode :: int
  mcPt :: real
  mcEta :: real
  mcPhi :: real
  vx :: real
  vy :: real
  vz :: real

text \<open>
  A row of the joined track table. \<open>mcParticle\<close> is the truth label of the Monte Carlo
  instantiation (\<open>has_mcParticle()\<close> is \<open>mcParticle track \<noteq> None\<close>); the data
  instantiation never reads it.
\<close>

record Track =
  pt :: real
  eta :: real
  phi :: real
  c1Pt21Pt2 :: real
  flags :: int
  sign :: int
  dcaXY :: real
  dcaZ :: real
  trackLength :: real
  itsClusterMap :: int
  itsChi2NCl :: real
  tpcChi2NCl :: real
  trdChi2 :: real
  tofChi2 :: real
  hasITS :: bool
  hasTPC :: bool
  hasTRD :: bool
  hasTOF :: bool
  tpcNClsFound :: int
  tpcNClsCrossedRows :: int
  tpcCrossedRowsOverFindableCls :: real
  tpcFoundOverFindableCls :: real
  tpcFractionSharedCls :: real
  itsNCls :: int
  itsNClsInnerBarrel :: int
  tpcSignal :: real
  tofSignal :: real
  tofEvTime :: real
  mcParticle :: "McParticle option"

text \<open>
  A row of the joined collision table, with the columns \<open>fillDerivedTable\<close> reads:
  \<open>runNumber\<close> is \<open>collision.bc().runNumber()\<close>, \<open>mcCollision\<close> is the global index
  of the associated truth collision (\<open>has_mcCollision()\<close> is \<open>mcCollision c \<noteq> None\<close>).
\<close>

record Collision =
  posZ :: real
  sel7 :: bool
  sel8 :: bool
  runNumber :: int
  mcCollision :: "int option"

subsection \<open>Output rows\<close>

text \<open>
  The cursors are called with positional arguments; the rows keep that order. The first
  column of a track row and of a non-reconstructed-particle row is the index of the
  collision row it belongs to.
\<close>

datatype DPGCollision = DPGCollision real bool int

datatype DPGTrack =
  DPGTrack (trackCollisionId: int)
    real real real real
    int int
    real real real
    int
    real real real real
    bool bool bool bool
    int int
    real real real
    int int real real

datatype DPGRecoParticle = DPGRecoParticle real real real int (recoProduction: int)

datatype DPGNonRecoParticle =
  DPGNonRecoParticle (nonRecoCollisionId: int) real real real int (nonRecoProduction: int)
    real real real

text \<open>
  The mutable state of the task on this path: the member \<open>nTableEventCounter\<close>, the four
  output tables, and the number of calls of \<open>rand()\<close> made so far (the state of the C
  library's generator).
\<close>

record State =
  nTableEventCounter :: int
  randCalls :: nat
  tableCollisions :: "DPGCollision list"
  tableTracks :: "DPGTrack list"
  tableRecoParticles :: "DPGRecoParticle list"
  tableNonRecoParticles :: "DPGNonRecoParticle list"

definition initState :: State where
  "initState = \<lparr>nTableEventCounter = 0, randCalls = 0, tableCollisions = [],
     tableTracks = [], tableRecoParticles = [], tableNonRecoParticles = []\<rparr>"

definition lastIndex :: "'a list \<Rightarrow> int" where
  "lastIndex rows = int (length rows) - 1"

text \<open>
  The value a 32-bit two's complement \<open>int\<close> holds when an \<open>int\<close> computation
  has the mathematical result \<open>x\<close>: \<open>x\<close> itself inside the range, wrapped
  around outside.
\<close>

definition int32 :: "int \<Rightarrow> int" where
  "int32 x = (x + 2147483648) mod 4294967296 - 2147483648"

section \<open>Initialisation\<close>

datatype error = FatalBothTableModes

text \<open>
  \<open>init\<close>: the first statement logs at severity \<open>fatal\<close>, which ends the process, when
  both table-producing switches are on. The rest of \<open>init\<close> registers histograms and
  raises nothing; its result is \<open>Inr ()\<close>.
\<close>

definition init :: "Switches \<Rightarrow> error + unit" where
  "init sw =
     (if doprocessTableData sw = True \<and> doprocessTableMC sw = True then Inl FatalBothTableModes
      else Inr ())"

section \<open>Selections\<close>

text \<open>\<open>isSelectedCollision<false>\<close>: the instantiation without histogram filling.\<close>

definition isSelectedCollision :: "Config \<Rightarrow> Collision \<Rightarrow> bool" where
  "isSelectedCollision cfg collision =
     (if selectGoodEvents cfg \<and> \<not> (if isRun3 cfg then sel8 collision else sel7 collision)
      then False else True)"

text \<open>
  \<open>isSelectedTrack<IS_MC>\<close>: the template parameter is the first argument; the block
  under \<open>if constexpr (IS_MC)\<close> is the \<open>IS_MC\<close> branch. \<open>std::abs\<close> is
  taken on an \<open>int\<close>: the absolute value, wrapped to 32 bits, which differs from
  the absolute value at the PDG code \<open>-2147483648\<close> only.
\<close>

definition isSelectedTrack :: "bool \<Rightarrow> Config \<Rightarrow> Track \<Rightarrow> bool" where
  "isSelectedTrack IS_MC cfg track =
     (if selectCharge cfg \<noteq> 0 \<and> selectCharge cfg \<noteq> sign track then False
      else if IS_MC then
        (case mcParticle track of
           None \<Rightarrow>
             (if selectPrim cfg \<or> selectSec cfg \<or> selectPID cfg \<noteq> 0 then False else True)
         | Some particle \<Rightarrow>
             (let isPrimary = isPhysicalPrimary particle in
              if selectPrim cfg \<and> \<not> isPrimary then False
              else if selectSec cfg \<and> isPrimary then False
              else if selectPID cfg \<noteq> 0 \<and> selectPID cfg \<noteq> int32 \<bar>pdgCode particle\<bar>
                then False
              else True))
      else True)"

section \<open>Filling the derived tables\<close>

text \<open>
  The production code of a truth particle, as computed in the track loop
  (lines 289-295) and again in the loop over the truth particles (lines 317-323).
\<close>

definition particleProductionReco :: "McParticle \<Rightarrow> int" where
  "particleProductionReco particle =
     (if isPhysicalPrimary particle then 0
      else if getProcess particle = 4 then 1
      else 2)"

definition particleProductionNonReco :: "McParticle \<Rightarrow> int" where
  "particleProductionNonReco particle =
     (if isPhysicalPrimary particle then 0
      else if getProcess particle = 4 then 1
      else 2)"

text \<open>The first loop over the tracks counts the selected ones.\<close>

fun countSelected :: "bool \<Rightarrow> Config \<Rightarrow> Track list \<Rightarrow> int \<Rightarrow> int" where
  "countSelected IS_MC cfg [] nTracks = nTracks"
| "countSelected IS_MC cfg (track # rest) nTracks =
     (if \<not> isSelectedTrack IS_MC cfg track then countSelected IS_MC cfg rest nTracks
      else countSelected IS_MC cfg rest (nTracks + 1))"

definition trackRow :: "int \<Rightarrow> Track \<Rightarrow> DPGTrack" where
  "trackRow collisionIndex track =
     DPGTrack collisionIndex
       (pt track) (eta track) (phi track) (pt track * sqrt (c1Pt21Pt2 track))
       (flags track) (sign track)
       (dcaXY track) (dcaZ track) (trackLength track)
       (itsClusterMap track)
       (itsChi2NCl track) (tpcChi2NCl track) (trdChi2 track) (tofChi2 track)
       (hasITS track) (hasTPC track) (hasTRD track) (hasTOF track)
       (tpcNClsFound track) (tpcNClsCrossedRows track)
       (tpcCrossedRowsOverFindableCls track) (tpcFoundOverFindableCls track)
       (tpcFractionSharedCls track)
       (itsNCls track) (itsNClsInnerBarrel track) (tpcSignal track)
       (tofSignal track - tofEvTime track)"

text \<open>
  The second loop over the tracks. The loop variables are the write position \<open>iTrack\<close>
  and the buffer \<open>recoPartIndices\<close>; the tables are in the state. A selected track
  appends a track row that refers to \<open>tableCollisions.lastIndex()\<close>; in the Monte Carlo
  instantiation it also appends a reconstructed-particle row, and a track with a truth
  label stores the label's global index at \<open>iTrack\<close> and advances \<open>iTrack\<close>. The
  store is in range (lemma \<open>trackLoop_buffer\<close>).
\<close>

fun trackLoop ::
  "bool \<Rightarrow> Config \<Rightarrow> Track list \<Rightarrow> nat \<times> int list \<times> State \<Rightarrow> nat \<times> int list \<times> State" where
  "trackLoop IS_MC cfg [] loopState = loopState"
| "trackLoop IS_MC cfg (track # rest) (iTrack, recoPartIndices, st) =
     (if \<not> isSelectedTrack IS_MC cfg track
      then trackLoop IS_MC cfg rest (iTrack, recoPartIndices, st)
      else
        let st1 = st\<lparr>tableTracks :=
                      tableTracks st @ [trackRow (lastIndex (tableCollisions st)) track]\<rparr>
        in if IS_MC then
             (case mcParticle track of
                Some particle \<Rightarrow>
                  trackLoop IS_MC cfg rest
                    (iTrack + 1,
                     recoPartIndices[iTrack := globalIndex particle],
                     st1\<lparr>tableRecoParticles := tableRecoParticles st1 @
                        [DPGRecoParticle (mcPt particle) (mcEta particle) (mcPhi particle)
                           (pdgCode particle) (particleProductionReco particle)]\<rparr>)
              | None \<Rightarrow>
                  trackLoop IS_MC cfg rest
                    (iTrack, recoPartIndices,
                     st1\<lparr>tableRecoParticles := tableRecoParticles st1 @
                        [DPGRecoParticle (pt track) (eta track) (phi track) 0 (- 1)]\<rparr>))
           else trackLoop IS_MC cfg rest (iTrack, recoPartIndices, st1))"

text \<open>\<open>particles.sliceBy(aod::mcparticle::mcCollisionId, id)\<close>: the rows of that collision.\<close>

definition sliceBy :: "McParticle list \<Rightarrow> int \<Rightarrow> McParticle list" where
  "sliceBy particles collisionIndex =
     filter (\<lambda>particle. mcCollisionId particle = collisionIndex) particles"

definition nonRecoRow :: "int \<Rightarrow> McParticle \<Rightarrow> DPGNonRecoParticle" where
  "nonRecoRow collisionIndex particle =
     DPGNonRecoParticle collisionIndex
       (mcPt particle) (mcEta particle) (mcPhi particle)
       (pdgCode particle) (particleProductionNonReco particle)
       (vx particle) (vy particle) (vz particle)"

text \<open>
  The loop over the truth particles of the collision: a particle whose global index is
  found in \<open>recoPartIndices\<close> (\<open>std::find\<close>) is skipped, any other appends a row.
\<close>

fun nonRecoLoop :: "int list \<Rightarrow> McParticle list \<Rightarrow> State \<Rightarrow> State" where
  "nonRecoLoop recoPartIndices [] st = st"
| "nonRecoLoop recoPartIndices (particle # rest) st =
     (let partReconstructed = (globalIndex particle \<in> set recoPartIndices) in
      if partReconstructed then nonRecoLoop recoPartIndices rest st
      else nonRecoLoop recoPartIndices rest
             (st\<lparr>tableNonRecoParticles := tableNonRecoParticles st @
                [nonRecoRow (lastIndex (tableCollisions st)) particle]\<rparr>))"

text \<open>
  The body of \<open>fillDerivedTable\<close> after the admission checks, from the append of the
  collision row on. \<open>recoPartIndices\<close> is created with one zero entry for each selected
  track in the Monte Carlo instantiation and empty otherwise.
\<close>

definition writeTables ::
  "bool \<Rightarrow> Config \<Rightarrow> Collision \<Rightarrow> Track list \<Rightarrow> McParticle list \<Rightarrow> State \<Rightarrow> State" where
  "writeTables IS_MC cfg collision tracks particles st =
     (let st1 = st\<lparr>tableCollisions := tableCollisions st @
                   [DPGCollision (posZ collision)
                      (if isRun3 cfg then sel8 collision else sel7 collision)
                      (runNumber collision)]\<rparr>;
          nTracks = countSelected IS_MC cfg tracks 0;
          recoPartIndices0 = replicate (nat (if IS_MC then nTracks else 0)) (0::int);
          (iTrack, recoPartIndices, st2) =
             trackLoop IS_MC cfg tracks (0, recoPartIndices0, st1)
      in if IS_MC then
           (case mcCollision collision of
              None \<Rightarrow> st2
            | Some mcCollisionIndex \<Rightarrow>
                nonRecoLoop recoPartIndices (sliceBy particles mcCollisionIndex) st2)
         else st2)"

text \<open>
  \<open>fillDerivedTable<IS_MC>\<close>. \<open>rnd k\<close> is the value of
  \<open>static_cast<float>(rand()) / static_cast<float>(RAND_MAX)\<close> at the \<open>k\<close>-th call of
  \<open>rand()\<close>; the call is made only when the sampled fraction is below one. \<open>abs\<close> is the
  absolute value of the float \<open>posZ\<close>. A rejected collision returns the state as it was.
  \<open>nTableEventCounter++\<close> is an increment of an \<open>int\<close>.
\<close>

definition fillDerivedTable ::
  "bool \<Rightarrow> Config \<Rightarrow> (nat \<Rightarrow> real) \<Rightarrow> Collision \<Rightarrow> Track list \<Rightarrow> McParticle list
     \<Rightarrow> State \<Rightarrow> State" where
  "fillDerivedTable IS_MC cfg rnd collision tracks particles st =
     (if \<not> isSelectedCollision cfg collision then st
      else if \<bar>posZ collision\<bar> > selectMaxVtxZ cfg then st
      else if fractionOfSampledEvents cfg < 1 then
        (let st1 = st\<lparr>randCalls := randCalls st + 1\<rparr> in
         if rnd (randCalls st) > fractionOfSampledEvents cfg then st1
         else if nTableEventCounter st1 > targetNumberOfEvents cfg then st1
         else writeTables IS_MC cfg collision tracks particles
                (st1\<lparr>nTableEventCounter := int32 (nTableEventCounter st1 + 1)\<rparr>))
      else if nTableEventCounter st > targetNumberOfEvents cfg then st
      else writeTables IS_MC cfg collision tracks particles
             (st\<lparr>nTableEventCounter := int32 (nTableEventCounter st + 1)\<rparr>))"

text \<open>
  \<open>processTableData\<close> and \<open>processTableMC\<close>: the framework calls the enabled one once for
  each collision, with the tracks of that collision; the data path passes no particles.
\<close>

definition processTableData ::
  "Config \<Rightarrow> (nat \<Rightarrow> real) \<Rightarrow> Collision \<Rightarrow> Track list \<Rightarrow> State \<Rightarrow> State" where
  "processTableData cfg rnd collision tracks st =
     fillDerivedTable False cfg rnd collision tracks [] st"

definition processTableMC ::
  "Config \<Rightarrow> (nat \<Rightarrow> real) \<Rightarrow> Collision \<Rightarrow> Track list \<Rightarrow> McParticle list \<Rightarrow> State \<Rightarrow> State" where
  "processTableMC cfg rnd collision tracks mcParticles st =
     fillDerivedTable True cfg rnd collision tracks mcParticles st"


section \<open>Auxiliary notions for the statements\<close>

text \<open>
  The reconstructed-particle row the track loop appends for a selected track, as one
  expression: the two branches of the test on \<open>has_mcParticle()\<close>.
\<close>

definition recoRow :: "Track \<Rightarrow> DPGRecoParticle" where
  "recoRow track =
     (case mcParticle track of
        Some particle \<Rightarrow>
          DPGRecoParticle (mcPt particle) (mcEta particle) (mcPhi particle)
            (pdgCode particle) (particleProductionReco particle)
      | None \<Rightarrow> DPGRecoParticle (pt track) (eta track) (phi track) 0 (- 1))"

text \<open>
  The global indices of the truth particles matched to a selected track, in track order:
  the values the track loop of the Monte Carlo instantiation stores.
\<close>

fun collectedIndices :: "Config \<Rightarrow> Track list \<Rightarrow> int list" where
  "collectedIndices cfg [] = []"
| "collectedIndices cfg (track # rest) =
     (if isSelectedTrack True cfg track then
        (case mcParticle track of
           Some particle \<Rightarrow> globalIndex particle # collectedIndices cfg rest
         | None \<Rightarrow> collectedIndices cfg rest)
      else collectedIndices cfg rest)"

text \<open>
  The content of \<open>recoPartIndices\<close> when the track loop has ended: the collected
  indices, followed by the zero entries that no selected track has overwritten.
\<close>

definition finalRecoPartIndices :: "bool \<Rightarrow> Config \<Rightarrow> Track list \<Rightarrow> int list" where
  "finalRecoPartIndices IS_MC cfg tracks =
     (if IS_MC then
        collectedIndices cfg tracks @
        replicate (length (filter (isSelectedTrack True cfg) tracks)
                     - length (collectedIndices cfg tracks)) 0
      else [])"

text \<open>The truth particles for which a call writes a non-reconstructed-particle row.\<close>

definition unreconstructed ::
  "bool \<Rightarrow> Config \<Rightarrow> Collision \<Rightarrow> Track list \<Rightarrow> McParticle list \<Rightarrow> McParticle list" where
  "unreconstructed IS_MC cfg collision tracks particles =
     (if IS_MC then
        (case mcCollision collision of
           None \<Rightarrow> []
         | Some mcCollisionIndex \<Rightarrow>
             filter (\<lambda>particle. globalIndex particle \<notin> set (finalRecoPartIndices IS_MC cfg tracks))
               (sliceBy particles mcCollisionIndex))
      else [])"

text \<open>The four admission checks of \<open>fillDerivedTable\<close>, read at the state of the call.\<close>

definition admitted :: "Config \<Rightarrow> (nat \<Rightarrow> real) \<Rightarrow> Collision \<Rightarrow> State \<Rightarrow> bool" where
  "admitted cfg rnd collision st =
     (isSelectedCollision cfg collision \<and>
      \<not> \<bar>posZ collision\<bar> > selectMaxVtxZ cfg \<and>
      \<not> (fractionOfSampledEvents cfg < 1 \<and> rnd (randCalls st) > fractionOfSampledEvents cfg) \<and>
      \<not> nTableEventCounter st > targetNumberOfEvents cfg)"

text \<open>
  One process function called for each collision of the input in turn, on the same table
  of truth particles.
\<close>

fun processAll ::
  "bool \<Rightarrow> Config \<Rightarrow> (nat \<Rightarrow> real) \<Rightarrow> McParticle list \<Rightarrow> (Collision \<times> Track list) list
     \<Rightarrow> State \<Rightarrow> State" where
  "processAll IS_MC cfg rnd particles [] st = st"
| "processAll IS_MC cfg rnd particles ((collision, tracks) # rest) st =
     processAll IS_MC cfg rnd particles rest
       (fillDerivedTable IS_MC cfg rnd collision tracks particles st)"

text \<open>Every back-reference of a child row is the position of a collision row.\<close>

definition refsValid :: "State \<Rightarrow> bool" where
  "refsValid st =
     ((\<forall>row \<in> set (tableTracks st).
         0 \<le> trackCollisionId row \<and> trackCollisionId row < int (length (tableCollisions st))) \<and>
      (\<forall>row \<in> set (tableNonRecoParticles st).
         0 \<le> nonRecoCollisionId row \<and> nonRecoCollisionId row < int (length (tableCollisions st))))"

section \<open>Concrete inputs\<close>

text \<open>The default values of the configurables, as declared in the task.\<close>

definition defaultConfig :: Config where
  "defaultConfig = \<lparr>isRun3 = False, selectGoodEvents = True, selectMaxVtxZ = 100,
     targetNumberOfEvents = 10000000, fractionOfSampledEvents = 1, selectCharge = 0,
     selectPrim = False, selectSec = False, selectPID = 0\<rparr>"

text \<open>Two generators: one whose draws are all 0, one whose draws are all 1.\<close>

definition rndZero :: "nat \<Rightarrow> real" where
  "rndZero k = 0"

definition rndOne :: "nat \<Rightarrow> real" where
  "rndOne k = 1"

text \<open>A collision at a given \<open>posZ\<close> with both quality flags set, in run 0.\<close>

definition exampleCollision :: "real \<Rightarrow> int option \<Rightarrow> Collision" where
  "exampleCollision z mcIndex =
     \<lparr>posZ = z, sel7 = True, sel8 = True, runNumber = 0, mcCollision = mcIndex\<rparr>"

text \<open>A truth particle: global index, truth collision, primary flag, process, PDG code.\<close>

definition exampleParticle :: "int \<Rightarrow> int \<Rightarrow> bool \<Rightarrow> int \<Rightarrow> int \<Rightarrow> McParticle" where
  "exampleParticle index collisionIndex primary process pdg =
     \<lparr>globalIndex = index, mcCollisionId = collisionIndex, isPhysicalPrimary = primary,
      getProcess = process, pdgCode = pdg, mcPt = 1, mcEta = 0, mcPhi = 0,
      vx = 0, vy = 0, vz = 0\<rparr>"

text \<open>A track of a given charge sign and truth label; the other columns are fixed.\<close>

definition exampleTrack :: "int \<Rightarrow> McParticle option \<Rightarrow> Track" where
  "exampleTrack charge label =
     \<lparr>pt = 1, eta = 0, phi = 0, c1Pt21Pt2 = 0, flags = 0, sign = charge,
      dcaXY = 0, dcaZ = 0, trackLength = 0, itsClusterMap = 0,
      itsChi2NCl = 0, tpcChi2NCl = 0, trdChi2 = 0, tofChi2 = 0,
      hasITS = True, hasTPC = True, hasTRD = False, hasTOF = False,
      tpcNClsFound = 0, tpcNClsCrossedRows = 0,
      tpcCrossedRowsOverFindableCls = 0, tpcFoundOverFindableCls = 0,
      tpcFractionSharedCls = 0, itsNCls = 0, itsNClsInnerBarrel = 0,
      tpcSignal = 0, tofSignal = 0, tofEvTime = 0, mcParticle = label\<rparr>"

section \<open>The loops in closed form\<close>

lemma countSelected_filter:
  "countSelected m cfg ts n = n + int (length (filter (isSelectedTrack m cfg) ts))"
  by (induction ts arbitrary: n) simp_all

lemma lastIndex_snoc: "lastIndex (rows @ [r]) = int (length rows)"
  by (simp add: lastIndex_def)

lemma trackLoop_state:
  "snd (snd (trackLoop m cfg ts (i, buf, st))) =
     st\<lparr>tableTracks := tableTracks st @
           map (trackRow (lastIndex (tableCollisions st))) (filter (isSelectedTrack m cfg) ts),
        tableRecoParticles := tableRecoParticles st @
           (if m then map recoRow (filter (isSelectedTrack m cfg) ts) else [])\<rparr>"
proof (induction ts arbitrary: i buf st)
  case Nil
  show ?case by simp
next
  case (Cons t ts)
  show ?case
  proof (cases "isSelectedTrack m cfg t")
    case False
    then show ?thesis using Cons.IH by (cases m) simp_all
  next
    case True
    then show ?thesis using Cons.IH
      by (cases m; cases "mcParticle t") (simp_all add: Let_def recoRow_def)
  qed
qed

lemma collectedIndices_length:
  "length (collectedIndices cfg ts) \<le> length (filter (isSelectedTrack True cfg) ts)"
  by (induction ts) (auto split: option.splits)

text \<open>
  Every store of the track loop is inside the buffer, and the loop leaves the collected
  indices in the slots from the start position on.
\<close>

lemma trackLoop_buffer:
  "i + length (collectedIndices cfg ts) \<le> length buf \<Longrightarrow>
     fst (trackLoop True cfg ts (i, buf, st)) = i + length (collectedIndices cfg ts) \<and>
     fst (snd (trackLoop True cfg ts (i, buf, st))) =
       take i buf @ collectedIndices cfg ts @ drop (i + length (collectedIndices cfg ts)) buf"
proof (induction ts arbitrary: i buf st)
  case Nil
  show ?case by simp
next
  case (Cons t ts)
  show ?case
  proof (cases "isSelectedTrack True cfg t")
    case False
    then show ?thesis using Cons by simp
  next
    case sel: True
    show ?thesis
    proof (cases "mcParticle t")
      case None
      then show ?thesis using sel Cons by (simp add: Let_def)
    next
      case (Some p)
      have len: "Suc i + length (collectedIndices cfg ts) \<le> length (buf[i := globalIndex p])"
        using Cons.prems sel Some by simp
      have ilt: "i < length buf" using Cons.prems sel Some by simp
      have tk: "take (Suc i) (buf[i := globalIndex p]) = take i buf @ [globalIndex p]"
        using ilt by (simp add: take_Suc_conv_app_nth)
      have dr: "drop (Suc i + length (collectedIndices cfg ts)) (buf[i := globalIndex p])
                  = drop (Suc i + length (collectedIndices cfg ts)) buf"
        by simp
      show ?thesis
        using Cons.IH [OF len] sel Some tk dr by (simp add: Let_def)
    qed
  qed
qed

lemma trackLoop_buffer_data:
  "fst (snd (trackLoop False cfg ts (i, buf, st))) = buf"
  by (induction ts arbitrary: i buf st) (simp_all add: Let_def)

lemma trackLoop_final_buffer:
  "fst (snd (trackLoop m cfg ts
       (0, replicate (nat (if m then countSelected m cfg ts 0 else 0)) 0, st))) =
     finalRecoPartIndices m cfg ts"
proof (cases m)
  case False
  then show ?thesis by (simp add: trackLoop_buffer_data finalRecoPartIndices_def)
next
  case True
  have "0 + length (collectedIndices cfg ts)
          \<le> length (replicate (length (filter (isSelectedTrack True cfg) ts)) (0::int))"
    using collectedIndices_length [of cfg ts] by simp
  from trackLoop_buffer [OF this, of st] True show ?thesis
    by (simp add: countSelected_filter finalRecoPartIndices_def)
qed

lemma nonRecoLoop_state:
  "nonRecoLoop buf ps st =
     st\<lparr>tableNonRecoParticles := tableNonRecoParticles st @
           map (nonRecoRow (lastIndex (tableCollisions st)))
             (filter (\<lambda>particle. globalIndex particle \<notin> set buf) ps)\<rparr>"
  by (induction ps arbitrary: st) (simp_all add: Let_def)

text \<open>The rows one admitted call appends to the four tables.\<close>

lemma writeTables_state:
  "writeTables m cfg c ts ps st =
     st\<lparr>tableCollisions := tableCollisions st @
           [DPGCollision (posZ c) (if isRun3 cfg then sel8 c else sel7 c) (runNumber c)],
        tableTracks := tableTracks st @
           map (trackRow (int (length (tableCollisions st)))) (filter (isSelectedTrack m cfg) ts),
        tableRecoParticles := tableRecoParticles st @
           (if m then map recoRow (filter (isSelectedTrack m cfg) ts) else []),
        tableNonRecoParticles := tableNonRecoParticles st @
           map (nonRecoRow (int (length (tableCollisions st)))) (unreconstructed m cfg c ts ps)\<rparr>"
proof (cases m)
  case False
  then show ?thesis
    by (simp add: writeTables_def Let_def split_beta trackLoop_state lastIndex_snoc
        unreconstructed_def)
next
  case True
  show ?thesis
  proof (cases "mcCollision c")
    case None
    then show ?thesis using True
      by (simp add: writeTables_def Let_def split_beta trackLoop_state lastIndex_snoc
          unreconstructed_def)
  next
    case (Some cid)
    then show ?thesis using True trackLoop_final_buffer [of True cfg ts]
      by (simp add: writeTables_def Let_def split_beta trackLoop_state lastIndex_snoc
          unreconstructed_def nonRecoLoop_state)
  qed
qed

text \<open>\<open>fillDerivedTable\<close> as one case distinction on the admission checks.\<close>

lemma fillDerivedTable_admitted:
  "admitted cfg rnd c st \<Longrightarrow>
     fillDerivedTable m cfg rnd c ts ps st =
       writeTables m cfg c ts ps
         (st\<lparr>randCalls := randCalls st + (if fractionOfSampledEvents cfg < 1 then 1 else 0),
             nTableEventCounter := int32 (nTableEventCounter st + 1)\<rparr>)"
  by (simp add: admitted_def fillDerivedTable_def Let_def)

lemma fillDerivedTable_rejected:
  "\<not> admitted cfg rnd c st \<Longrightarrow>
     fillDerivedTable m cfg rnd c ts ps st =
       st\<lparr>randCalls := randCalls st +
            (if isSelectedCollision cfg c \<and> \<not> \<bar>posZ c\<bar> > selectMaxVtxZ cfg \<and>
                fractionOfSampledEvents cfg < 1 then 1 else 0)\<rparr>"
  by (auto simp: admitted_def fillDerivedTable_def Let_def)

lemma fillDerivedTable_tables:
  "tableCollisions (fillDerivedTable m cfg rnd c ts ps st) =
     tableCollisions st @
       (if admitted cfg rnd c st
        then [DPGCollision (posZ c) (if isRun3 cfg then sel8 c else sel7 c) (runNumber c)]
        else [])"
  "tableTracks (fillDerivedTable m cfg rnd c ts ps st) =
     tableTracks st @
       (if admitted cfg rnd c st
        then map (trackRow (int (length (tableCollisions st)))) (filter (isSelectedTrack m cfg) ts)
        else [])"
  "tableRecoParticles (fillDerivedTable m cfg rnd c ts ps st) =
     tableRecoParticles st @
       (if admitted cfg rnd c st \<and> m then map recoRow (filter (isSelectedTrack m cfg) ts)
        else [])"
  "tableNonRecoParticles (fillDerivedTable m cfg rnd c ts ps st) =
     tableNonRecoParticles st @
       (if admitted cfg rnd c st
        then map (nonRecoRow (int (length (tableCollisions st)))) (unreconstructed m cfg c ts ps)
        else [])"
  by (cases "admitted cfg rnd c st";
      simp add: fillDerivedTable_admitted fillDerivedTable_rejected writeTables_state)+

lemma fillDerivedTable_counters:
  "nTableEventCounter (fillDerivedTable m cfg rnd c ts ps st) =
     (if admitted cfg rnd c st then int32 (nTableEventCounter st + 1)
      else nTableEventCounter st)"
  "randCalls (fillDerivedTable m cfg rnd c ts ps st) =
     randCalls st +
       (if isSelectedCollision cfg c \<and> \<not> \<bar>posZ c\<bar> > selectMaxVtxZ cfg \<and>
           fractionOfSampledEvents cfg < 1 then 1 else 0)"
  by (cases "admitted cfg rnd c st";
      simp add: fillDerivedTable_admitted fillDerivedTable_rejected writeTables_state;
      simp add: admitted_def)+

lemma int32_id: "- 2147483648 \<le> x \<Longrightarrow> x < 2147483648 \<Longrightarrow> int32 x = x"
  by (simp add: int32_def)

lemma int32_abs:
  "- 2147483648 < x \<Longrightarrow> x < 2147483648 \<Longrightarrow> int32 \<bar>x\<bar> = \<bar>x\<bar>"
  by (rule int32_id) simp_all

text \<open>
  While the target is below the largest \<open>int\<close>, a counter inside the range of an
  \<open>int\<close> stays inside it and the increment does not wrap: an admitted call adds
  one, a rejected call leaves the counter as it is.
\<close>

lemma fillDerivedTable_counter_range:
  assumes "- 2147483648 \<le> nTableEventCounter st"
    and "nTableEventCounter st < 2147483648"
    and "targetNumberOfEvents cfg < 2147483647"
  shows "nTableEventCounter (fillDerivedTable m cfg rnd c ts ps st) =
           nTableEventCounter st + (if admitted cfg rnd c st then 1 else 0)"
    and "- 2147483648 \<le> nTableEventCounter (fillDerivedTable m cfg rnd c ts ps st)"
    and "nTableEventCounter (fillDerivedTable m cfg rnd c ts ps st) < 2147483648"
proof -
  have eq: "nTableEventCounter (fillDerivedTable m cfg rnd c ts ps st) =
           nTableEventCounter st + (if admitted cfg rnd c st then 1 else 0)"
  proof (cases "admitted cfg rnd c st")
    case True
    then have "nTableEventCounter st \<le> targetNumberOfEvents cfg"
      by (simp add: admitted_def)
    then have "int32 (nTableEventCounter st + 1) = nTableEventCounter st + 1"
      using assms by (intro int32_id) simp_all
    then show ?thesis using True by (simp add: fillDerivedTable_counters)
  next
    case False
    then show ?thesis by (simp add: fillDerivedTable_counters)
  qed
  show "nTableEventCounter (fillDerivedTable m cfg rnd c ts ps st) =
           nTableEventCounter st + (if admitted cfg rnd c st then 1 else 0)"
    by (rule eq)
  show "- 2147483648 \<le> nTableEventCounter (fillDerivedTable m cfg rnd c ts ps st)"
    using assms(1) by (simp add: eq)
  show "nTableEventCounter (fillDerivedTable m cfg rnd c ts ps st) < 2147483648"
    using assms(2,3) by (cases "admitted cfg rnd c st") (simp_all add: eq admitted_def)
qed

text \<open>
  At the two edges the wrap-around shows: a counter and a target at the largest
  \<open>int\<close> give the smallest \<open>int\<close> after the increment, and \<open>std::abs\<close> of the
  smallest \<open>int\<close> is that \<open>int\<close> again, which a selected PID of the same value
  matches.
\<close>

lemma counter_wraps_at_largest_int:
  "nTableEventCounter
     (fillDerivedTable False (defaultConfig\<lparr>targetNumberOfEvents := 2147483647\<rparr>) rndZero
        (exampleCollision 0 None) [] [] (initState\<lparr>nTableEventCounter := 2147483647\<rparr>)) =
   - 2147483648"
  by (simp add: fillDerivedTable_counters admitted_def isSelectedCollision_def
      defaultConfig_def exampleCollision_def initState_def int32_def)

lemma std_abs_of_smallest_int:
  "isSelectedTrack True (defaultConfig\<lparr>selectPID := - 2147483648\<rparr>)
     (exampleTrack 1 (Some (exampleParticle 0 0 True 0 (- 2147483648))))"
  by (simp add: isSelectedTrack_def defaultConfig_def exampleTrack_def exampleParticle_def
      int32_def)


section \<open>Admission\<close>

text \<open>
  C3. A collision whose vertex lies outside the window, \<open>abs(posZ) > selectMaxVtxZ\<close>, is
  rejected by the table writer of either instantiation: the call returns the state it was
  given, so no row is appended to any table and the event counter keeps its value.
\<close>

theorem vertex_outside_window_rejected:
  "\<bar>posZ collision\<bar> > selectMaxVtxZ cfg \<Longrightarrow>
     fillDerivedTable IS_MC cfg rnd collision tracks particles st = st"
  by (simp add: fillDerivedTable_def)

theorem vertex_outside_window_rejected_witness:
  "\<bar>posZ (exampleCollision 150 (Some 0))\<bar> > selectMaxVtxZ defaultConfig \<and>
   selectMaxVtxZ defaultConfig = 100 \<and>
   fillDerivedTable True defaultConfig rndZero (exampleCollision 150 (Some 0))
     [exampleTrack 1 None] [exampleParticle 0 0 True 0 211] initState = initState \<and>
   tableCollisions initState = [] \<and> tableTracks initState = [] \<and>
   tableRecoParticles initState = [] \<and> tableNonRecoParticles initState = []"
proof -
  have h: "\<bar>posZ (exampleCollision 150 (Some 0))\<bar> > selectMaxVtxZ defaultConfig"
    by (simp add: exampleCollision_def defaultConfig_def)
  show ?thesis
    using h vertex_outside_window_rejected [OF h, of True rndZero "[exampleTrack 1 None]"
        "[exampleParticle 0 0 True 0 211]" initState]
    by (simp add: defaultConfig_def initState_def)
qed

text \<open>
  C6. A collision that fails \<open>isSelectedCollision\<close> is not admitted, whatever the vertex
  window, the sampled fraction, the target, the generator and the counter are: the call
  returns the state it was given (no row appended, counter unchanged, no draw made).
\<close>

theorem unselected_collision_rejected:
  "\<not> isSelectedCollision cfg collision \<Longrightarrow>
     fillDerivedTable IS_MC cfg rnd collision tracks particles st = st \<and>
     fillDerivedTable IS_MC
       (cfg\<lparr>selectMaxVtxZ := maxZ, targetNumberOfEvents := target,
            fractionOfSampledEvents := fraction\<rparr>)
       rnd collision tracks particles st = st"
  by (simp add: fillDerivedTable_def isSelectedCollision_def)

theorem unselected_collision_rejected_witness:
  "\<not> isSelectedCollision defaultConfig ((exampleCollision 0 None)\<lparr>sel7 := False\<rparr>) \<and>
   fillDerivedTable False defaultConfig rndZero ((exampleCollision 0 None)\<lparr>sel7 := False\<rparr>)
     [exampleTrack 1 None] [] initState = initState \<and>
   fillDerivedTable False
     (defaultConfig\<lparr>selectMaxVtxZ := 10, targetNumberOfEvents := 5,
        fractionOfSampledEvents := 1 / 2\<rparr>)
     rndZero ((exampleCollision 0 None)\<lparr>sel7 := False\<rparr>)
     [exampleTrack 1 None] [] initState = initState"
proof -
  have h: "\<not> isSelectedCollision defaultConfig ((exampleCollision 0 None)\<lparr>sel7 := False\<rparr>)"
    by (simp add: isSelectedCollision_def exampleCollision_def defaultConfig_def)
  show ?thesis
    using h unselected_collision_rejected [OF h, where IS_MC = False and rnd = rndZero
        and tracks = "[exampleTrack 1 None]" and particles = "[]" and st = initState
        and maxZ = 10 and target = 5 and fraction = "1 / 2"]
    by simp
qed

text \<open>
  C8. When the sampled fraction is not below one the generator is not consulted: the call
  makes no draw, and its result, started from any generator state \<open>k\<close> and with any
  generator, is the result for any other generator, with the generator state still \<open>k\<close>.
  Two runs on the same collision, tracks, particles, tables and counter write the same rows.
\<close>

theorem full_sampling_is_deterministic:
  "1 \<le> fractionOfSampledEvents cfg \<Longrightarrow>
     fillDerivedTable IS_MC cfg rnd2 collision tracks particles (st\<lparr>randCalls := k\<rparr>) =
       (fillDerivedTable IS_MC cfg rnd1 collision tracks particles st)\<lparr>randCalls := k\<rparr> \<and>
     randCalls (fillDerivedTable IS_MC cfg rnd1 collision tracks particles st) = randCalls st"
  by (simp add: fillDerivedTable_def writeTables_state)

theorem full_sampling_is_deterministic_witness:
  "1 \<le> fractionOfSampledEvents defaultConfig \<and>
   nTableEventCounter initState < targetNumberOfEvents defaultConfig \<and>
   fillDerivedTable True defaultConfig rndOne (exampleCollision 0 (Some 0))
       [exampleTrack 1 (Some (exampleParticle 3 0 True 0 211))]
       [exampleParticle 3 0 True 0 211, exampleParticle 4 0 False 4 11]
       (initState\<lparr>randCalls := 7\<rparr>) =
     (fillDerivedTable True defaultConfig rndZero (exampleCollision 0 (Some 0))
       [exampleTrack 1 (Some (exampleParticle 3 0 True 0 211))]
       [exampleParticle 3 0 True 0 211, exampleParticle 4 0 False 4 11]
       initState)\<lparr>randCalls := 7\<rparr> \<and>
   length (tableNonRecoParticles
     (fillDerivedTable True defaultConfig rndOne (exampleCollision 0 (Some 0))
       [exampleTrack 1 (Some (exampleParticle 3 0 True 0 211))]
       [exampleParticle 3 0 True 0 211, exampleParticle 4 0 False 4 11]
       (initState\<lparr>randCalls := 7\<rparr>))) = 1"
proof -
  have h: "1 \<le> fractionOfSampledEvents defaultConfig"
    by (simp add: defaultConfig_def)
  have c: "nTableEventCounter initState < targetNumberOfEvents defaultConfig"
    by (simp add: defaultConfig_def initState_def)
  have a: "admitted defaultConfig rndOne (exampleCollision 0 (Some 0))
             (initState\<lparr>randCalls := 7\<rparr>)"
    by (simp add: admitted_def defaultConfig_def exampleCollision_def initState_def
        isSelectedCollision_def)
  have n: "length (tableNonRecoParticles
     (fillDerivedTable True defaultConfig rndOne (exampleCollision 0 (Some 0))
       [exampleTrack 1 (Some (exampleParticle 3 0 True 0 211))]
       [exampleParticle 3 0 True 0 211, exampleParticle 4 0 False 4 11]
       (initState\<lparr>randCalls := 7\<rparr>))) = 1"
    unfolding fillDerivedTable_admitted [OF a]
    by (simp add: writeTables_state unreconstructed_def
        finalRecoPartIndices_def sliceBy_def isSelectedTrack_def defaultConfig_def
        exampleCollision_def exampleTrack_def exampleParticle_def initState_def)
  show ?thesis
    using h c n full_sampling_is_deterministic [OF h, where IS_MC = True
        and ?rnd2.0 = rndOne and ?rnd1.0 = rndZero
        and collision = "exampleCollision 0 (Some 0)"
        and tracks = "[exampleTrack 1 (Some (exampleParticle 3 0 True 0 211))]"
        and particles = "[exampleParticle 3 0 True 0 211, exampleParticle 4 0 False 4 11]"
        and st = initState and k = 7]
    by simp
qed

section \<open>Initialisation\<close>

text \<open>
  C9. \<open>init\<close> ends with the fatal error exactly when \<open>processTableData\<close> and
  \<open>processTableMC\<close> are both enabled; with at most one of them enabled it does not raise
  the error.
\<close>

theorem init_fatal_iff_both_table_modes:
  "(init sw = Inl FatalBothTableModes) = (doprocessTableData sw \<and> doprocessTableMC sw) \<and>
   (init sw = Inr ()) = (\<not> (doprocessTableData sw \<and> doprocessTableMC sw))"
  by (simp add: init_def)

theorem init_fatal_iff_both_table_modes_witness:
  "init \<lparr>doprocessData = False, doprocessMC = True,
         doprocessTableData = True, doprocessTableMC = True\<rparr> = Inl FatalBothTableModes \<and>
   init \<lparr>doprocessData = False, doprocessMC = True,
         doprocessTableData = False, doprocessTableMC = True\<rparr> = Inr () \<and>
   init \<lparr>doprocessData = False, doprocessMC = True,
         doprocessTableData = True, doprocessTableMC = False\<rparr> = Inr () \<and>
   init \<lparr>doprocessData = False, doprocessMC = True,
         doprocessTableData = False, doprocessTableMC = False\<rparr> = Inr ()"
  using
    init_fatal_iff_both_table_modes [of "\<lparr>doprocessData = False, doprocessMC = True,
         doprocessTableData = True, doprocessTableMC = True\<rparr>"]
    init_fatal_iff_both_table_modes [of "\<lparr>doprocessData = False, doprocessMC = True,
         doprocessTableData = False, doprocessTableMC = True\<rparr>"]
    init_fatal_iff_both_table_modes [of "\<lparr>doprocessData = False, doprocessMC = True,
         doprocessTableData = True, doprocessTableMC = False\<rparr>"]
    init_fatal_iff_both_table_modes [of "\<lparr>doprocessData = False, doprocessMC = True,
         doprocessTableData = False, doprocessTableMC = False\<rparr>"]
  by simp

section \<open>Track selection\<close>

text \<open>
  C4. In the Monte Carlo instantiation, for a truth label whose PDG code is an \<open>int\<close>
  other than the smallest one (\<open>std::abs\<close> then is the absolute value),
  \<open>isSelectedTrack\<close> is the conjunction of: the charge requirement (no charge
  selected, or the selected charge is the track's sign); for a track without truth label,
  that none of \<open>selectPrim\<close>, \<open>selectSec\<close>, \<open>selectPID\<close> is active; for a track with a
  label, that \<open>selectPrim\<close> is off or the particle is primary, that \<open>selectSec\<close> is off
  or the particle is not primary, and that no PID is selected or the selected PID is the
  absolute value of the particle's PDG code. With \<open>selectPID = 211\<close> and a label of PDG
  code \<open>-211\<close> the PID requirement holds, so the track is selected whenever the charge
  and primary requirements hold.
\<close>

theorem isSelectedTrack_mc_conjunction:
  assumes "\<forall>label. mcParticle track = Some label \<longrightarrow>
             - 2147483648 < pdgCode label \<and> pdgCode label < 2147483648"
  shows "isSelectedTrack True cfg track =
     ((selectCharge cfg = 0 \<or> selectCharge cfg = sign track) \<and>
      (case mcParticle track of
         None \<Rightarrow> \<not> selectPrim cfg \<and> \<not> selectSec cfg \<and> selectPID cfg = 0
       | Some particle \<Rightarrow>
           (\<not> selectPrim cfg \<or> isPhysicalPrimary particle) \<and>
           (\<not> selectSec cfg \<or> \<not> isPhysicalPrimary particle) \<and>
           (selectPID cfg = 0 \<or> selectPID cfg = \<bar>pdgCode particle\<bar>))) \<and>
   (selectPID cfg = 211 \<and> mcParticle track = Some particle \<and> pdgCode particle = - 211 \<longrightarrow>
      isSelectedTrack True cfg track =
        ((selectCharge cfg = 0 \<or> selectCharge cfg = sign track) \<and>
         (\<not> selectPrim cfg \<or> isPhysicalPrimary particle) \<and>
         (\<not> selectSec cfg \<or> \<not> isPhysicalPrimary particle)))"
proof (cases "mcParticle track")
  case None
  then show ?thesis
    by (auto simp: isSelectedTrack_def)
next
  case (Some label)
  then have "- 2147483648 < pdgCode label" and "pdgCode label < 2147483648"
    using assms by auto
  then have "int32 \<bar>pdgCode label\<bar> = \<bar>pdgCode label\<bar>"
    by (rule int32_abs)
  then show ?thesis
    using Some by (auto simp: isSelectedTrack_def Let_def)
qed

theorem isSelectedTrack_mc_conjunction_witness:
  "mcParticle (exampleTrack (- 1) (Some (exampleParticle 0 0 True 0 (- 211)))) =
     Some (exampleParticle 0 0 True 0 (- 211)) \<and>
   - 2147483648 < pdgCode (exampleParticle 0 0 True 0 (- 211)) \<and>
   pdgCode (exampleParticle 0 0 True 0 (- 211)) < 2147483648 \<and>
   selectPID (defaultConfig\<lparr>selectPID := 211\<rparr>) = 211 \<and>
   pdgCode (exampleParticle 0 0 True 0 (- 211)) = - 211 \<and>
   isSelectedTrack True (defaultConfig\<lparr>selectPID := 211\<rparr>)
     (exampleTrack (- 1) (Some (exampleParticle 0 0 True 0 (- 211)))) \<and>
   \<not> isSelectedTrack True (defaultConfig\<lparr>selectPID := 211\<rparr>) (exampleTrack (- 1) None)"
proof -
  have label: "mcParticle (exampleTrack (- 1) (Some (exampleParticle 0 0 True 0 (- 211)))) =
     Some (exampleParticle 0 0 True 0 (- 211))"
    by (simp add: exampleTrack_def)
  have code: "pdgCode (exampleParticle 0 0 True 0 (- 211)) = - 211"
    by (simp add: exampleParticle_def)
  have h: "\<forall>label. mcParticle (exampleTrack (- 1) (Some (exampleParticle 0 0 True 0 (- 211)))) =
       Some label \<longrightarrow> - 2147483648 < pdgCode label \<and> pdgCode label < 2147483648"
    by (simp add: label code)
  have none: "\<forall>label. mcParticle (exampleTrack (- 1) None) = Some label \<longrightarrow>
       - 2147483648 < pdgCode label \<and> pdgCode label < 2147483648"
    by (simp add: exampleTrack_def)
  show ?thesis
    using label code
      isSelectedTrack_mc_conjunction [OF h, where cfg = "defaultConfig\<lparr>selectPID := 211\<rparr>"
        and particle = "exampleParticle 0 0 True 0 (- 211)"]
      isSelectedTrack_mc_conjunction [OF none, where cfg = "defaultConfig\<lparr>selectPID := 211\<rparr>"
        and particle = "exampleParticle 0 0 True 0 (- 211)"]
    by (simp add: defaultConfig_def exampleTrack_def exampleParticle_def)
qed

text \<open>
  C10. In the data instantiation \<open>isSelectedTrack\<close> is the charge requirement alone: two
  configurations with the same \<open>selectCharge\<close> select the same tracks, whatever their
  \<open>selectPrim\<close>, \<open>selectSec\<close> and \<open>selectPID\<close> are, and two tracks of the same sign are
  selected alike.
\<close>

theorem isSelectedTrack_data_charge_only:
  "isSelectedTrack False cfg track = (selectCharge cfg = 0 \<or> selectCharge cfg = sign track) \<and>
   (selectCharge cfg2 = selectCharge cfg \<and> sign track2 = sign track \<longrightarrow>
      isSelectedTrack False cfg2 track2 = isSelectedTrack False cfg track) \<and>
   isSelectedTrack False (cfg\<lparr>selectPrim := prim, selectSec := sec, selectPID := pid\<rparr>) track =
     isSelectedTrack False cfg track"
  by (auto simp: isSelectedTrack_def)

theorem isSelectedTrack_data_charge_only_witness:
  "selectCharge (defaultConfig\<lparr>selectPrim := True, selectSec := True, selectPID := 2212\<rparr>) =
     selectCharge defaultConfig \<and>
   isSelectedTrack False
     (defaultConfig\<lparr>selectPrim := True, selectSec := True, selectPID := 2212\<rparr>)
     (exampleTrack 1 None) \<and>
   isSelectedTrack False defaultConfig (exampleTrack 1 None) \<and>
   \<not> isSelectedTrack True
     (defaultConfig\<lparr>selectPrim := True, selectSec := True, selectPID := 2212\<rparr>)
     (exampleTrack 1 None)"
  using isSelectedTrack_data_charge_only [where cfg = defaultConfig
      and track = "exampleTrack 1 None"
      and ?cfg2.0 = "defaultConfig\<lparr>selectPrim := True, selectSec := True, selectPID := 2212\<rparr>"
      and ?track2.0 = "exampleTrack 1 None" and prim = True and sec = True and pid = 2212]
  by (simp add: defaultConfig_def exampleTrack_def isSelectedTrack_def)

section \<open>Production classification\<close>

text \<open>
  C5. The production code is defined for every truth particle and is one of 0, 1, 2:
  0 when the particle is a physical primary, whatever its process code; otherwise 1 when
  the process code is 4; otherwise 2. The track loop and the loop over the truth
  particles compute the same code, and the rows of an admitted Monte Carlo call carry
  it: the reconstructed-particle row of a selected track with a truth label has the
  code of the label (a selected track without label has -1), and each
  non-reconstructed-particle row has the code of its truth particle.
\<close>

theorem particleProduction_classification:
  "particleProductionReco particle = particleProductionNonReco particle \<and>
   particleProductionReco particle \<in> {0, 1, 2} \<and>
   particleProductionReco particle =
     (if isPhysicalPrimary particle then 0 else if getProcess particle = 4 then 1 else 2) \<and>
   (isPhysicalPrimary particle \<longrightarrow> particleProductionReco particle = 0) \<and>
   map recoProduction
       (drop (length (tableRecoParticles st))
          (tableRecoParticles (writeTables True cfg collision tracks particles st))) =
     map (\<lambda>track. case mcParticle track of
                     Some label \<Rightarrow> particleProductionReco label
                   | None \<Rightarrow> - 1)
       (filter (isSelectedTrack True cfg) tracks) \<and>
   map nonRecoProduction
       (drop (length (tableNonRecoParticles st))
          (tableNonRecoParticles (writeTables True cfg collision tracks particles st))) =
     map particleProductionNonReco (unreconstructed True cfg collision tracks particles)"
proof -
  have same: "particleProductionReco particle = particleProductionNonReco particle"
    by (simp add: particleProductionReco_def particleProductionNonReco_def)
  have range: "particleProductionReco particle \<in> {0, 1, 2}"
    by (simp add: particleProductionReco_def)
  have rule: "particleProductionReco particle =
     (if isPhysicalPrimary particle then 0 else if getProcess particle = 4 then 1 else 2)"
    by (simp add: particleProductionReco_def)
  have prim: "isPhysicalPrimary particle \<longrightarrow> particleProductionReco particle = 0"
    by (simp add: particleProductionReco_def)
  have row: "recoProduction (recoRow track) =
      (case mcParticle track of Some label \<Rightarrow> particleProductionReco label | None \<Rightarrow> - 1)"
    for track
    by (simp add: recoRow_def split: option.splits)
  have reco: "map recoProduction
       (drop (length (tableRecoParticles st))
          (tableRecoParticles (writeTables True cfg collision tracks particles st))) =
     map (\<lambda>track. case mcParticle track of
                     Some label \<Rightarrow> particleProductionReco label
                   | None \<Rightarrow> - 1)
       (filter (isSelectedTrack True cfg) tracks)"
    by (simp add: writeTables_state row comp_def)
  have nonreco: "map nonRecoProduction
       (drop (length (tableNonRecoParticles st))
          (tableNonRecoParticles (writeTables True cfg collision tracks particles st))) =
     map particleProductionNonReco (unreconstructed True cfg collision tracks particles)"
    by (simp add: writeTables_state nonRecoRow_def comp_def)
  from same range rule prim reco nonreco show ?thesis by blast
qed

theorem particleProduction_classification_witness:
  "isPhysicalPrimary (exampleParticle 0 0 True 4 211) \<and>
   particleProductionReco (exampleParticle 0 0 True 4 211) = 0 \<and>
   particleProductionNonReco (exampleParticle 0 0 True 4 211) = 0 \<and>
   map recoProduction
       (tableRecoParticles (writeTables True defaultConfig (exampleCollision 0 (Some 0))
          [exampleTrack 1 (Some (exampleParticle 0 0 True 4 211)), exampleTrack 1 None]
          [exampleParticle 0 0 True 4 211, exampleParticle 1 0 False 4 11,
           exampleParticle 2 0 False 23 22]
          initState)) = [0, - 1]"
proof -
  have h: "isPhysicalPrimary (exampleParticle 0 0 True 4 211)"
    by (simp add: exampleParticle_def)
  have e: "tableRecoParticles initState = []"
    by (simp add: initState_def)
  show ?thesis
    using h e particleProduction_classification [where particle = "exampleParticle 0 0 True 4 211"
        and cfg = defaultConfig and collision = "exampleCollision 0 (Some 0)"
        and tracks = "[exampleTrack 1 (Some (exampleParticle 0 0 True 4 211)), exampleTrack 1 None]"
        and particles = "[exampleParticle 0 0 True 4 211, exampleParticle 1 0 False 4 11,
           exampleParticle 2 0 False 23 22]"
        and st = initState]
    by (simp add: isSelectedTrack_def defaultConfig_def exampleTrack_def)
qed

section \<open>The cap on the number of events\<close>






section \<open>Back-references of the child rows\<close>

lemma trackCollisionId_trackRow: "trackCollisionId (trackRow k track) = k"
  by (simp add: trackRow_def)

lemma nonRecoCollisionId_nonRecoRow: "nonRecoCollisionId (nonRecoRow k particle) = k"
  by (simp add: nonRecoRow_def)

lemma refsValid_step:
  "refsValid st \<Longrightarrow> refsValid (fillDerivedTable m cfg rnd c ts ps st)"
  by (auto simp: refsValid_def fillDerivedTable_tables trackCollisionId_trackRow
      nonRecoCollisionId_nonRecoRow)

lemma refsValid_processAll:
  "refsValid st \<Longrightarrow> refsValid (processAll m cfg rnd ps inputs st)"
proof (induction inputs arbitrary: st)
  case Nil
  then show ?case by simp
next
  case (Cons input inputs)
  obtain c ts where input: "input = (c, ts)" by (cases input)
  show ?case
    using Cons.IH [OF refsValid_step [OF Cons.prems, of m cfg rnd c ts ps]]
    by (simp add: input)
qed

text \<open>
  C7. Let a call of \<open>fillDerivedTable\<close> take the state \<open>st\<close> to \<open>st'\<close>. The tables only
  grow. Every track row and every non-reconstructed-particle row the call appends has as
  back-reference the position \<open>length (tableCollisions st)\<close>, and whenever there is such
  a row the call has appended exactly one collision row, which stands at that position:
  the collision row is in the table before the first child row is written, and the
  reference points at it, not forward. Hence in every state reached from the empty
  tables by any sequence of calls each back-reference is the position of a collision row
  of the table.
\<close>

theorem child_rows_reference_collision_of_call:
  assumes "st' = fillDerivedTable IS_MC cfg rnd collision tracks particles st"
  shows "take (length (tableCollisions st)) (tableCollisions st') = tableCollisions st \<and>
         take (length (tableTracks st)) (tableTracks st') = tableTracks st \<and>
         take (length (tableNonRecoParticles st)) (tableNonRecoParticles st') =
           tableNonRecoParticles st \<and>
         (\<forall>row \<in> set (drop (length (tableTracks st)) (tableTracks st')).
            trackCollisionId row = int (length (tableCollisions st)) \<and>
            length (tableCollisions st') = length (tableCollisions st) + 1) \<and>
         (\<forall>row \<in> set (drop (length (tableNonRecoParticles st)) (tableNonRecoParticles st')).
            nonRecoCollisionId row = int (length (tableCollisions st)) \<and>
            length (tableCollisions st') = length (tableCollisions st) + 1) \<and>
         (refsValid st \<longrightarrow> refsValid st') \<and>
         refsValid (processAll IS_MC cfg rnd particles inputs initState)"
proof -
  have grow: "take (length (tableCollisions st)) (tableCollisions st') = tableCollisions st"
    "take (length (tableTracks st)) (tableTracks st') = tableTracks st"
    "take (length (tableNonRecoParticles st)) (tableNonRecoParticles st') =
       tableNonRecoParticles st"
    by (simp_all add: assms fillDerivedTable_tables)
  have trk: "\<forall>row \<in> set (drop (length (tableTracks st)) (tableTracks st')).
            trackCollisionId row = int (length (tableCollisions st)) \<and>
            length (tableCollisions st') = length (tableCollisions st) + 1"
    by (auto simp: assms fillDerivedTable_tables trackCollisionId_trackRow)
  have non: "\<forall>row \<in> set (drop (length (tableNonRecoParticles st)) (tableNonRecoParticles st')).
            nonRecoCollisionId row = int (length (tableCollisions st)) \<and>
            length (tableCollisions st') = length (tableCollisions st) + 1"
    by (auto simp: assms fillDerivedTable_tables nonRecoCollisionId_nonRecoRow)
  have inv: "refsValid st \<longrightarrow> refsValid st'"
    by (simp add: assms refsValid_step)
  have "refsValid initState"
    by (simp add: refsValid_def initState_def)
  then have run: "refsValid (processAll IS_MC cfg rnd particles inputs initState)"
    by (rule refsValid_processAll)
  from grow trk non inv run show ?thesis by blast
qed

theorem child_rows_reference_collision_of_call_witness:
  "map trackCollisionId (tableTracks
     (fillDerivedTable True defaultConfig rndZero (exampleCollision 0 (Some 0))
        [exampleTrack 1 (Some (exampleParticle 3 0 True 0 211))]
        [exampleParticle 3 0 True 0 211, exampleParticle 4 0 False 4 11]
        (fillDerivedTable True defaultConfig rndZero (exampleCollision 0 (Some 0))
           [exampleTrack 1 (Some (exampleParticle 3 0 True 0 211))]
           [exampleParticle 3 0 True 0 211, exampleParticle 4 0 False 4 11]
           initState))) = [0, 1] \<and>
   map nonRecoCollisionId (tableNonRecoParticles
     (fillDerivedTable True defaultConfig rndZero (exampleCollision 0 (Some 0))
        [exampleTrack 1 (Some (exampleParticle 3 0 True 0 211))]
        [exampleParticle 3 0 True 0 211, exampleParticle 4 0 False 4 11]
        (fillDerivedTable True defaultConfig rndZero (exampleCollision 0 (Some 0))
           [exampleTrack 1 (Some (exampleParticle 3 0 True 0 211))]
           [exampleParticle 3 0 True 0 211, exampleParticle 4 0 False 4 11]
           initState))) = [0, 1] \<and>
   length (tableCollisions
     (fillDerivedTable True defaultConfig rndZero (exampleCollision 0 (Some 0))
        [exampleTrack 1 (Some (exampleParticle 3 0 True 0 211))]
        [exampleParticle 3 0 True 0 211, exampleParticle 4 0 False 4 11]
        (fillDerivedTable True defaultConfig rndZero (exampleCollision 0 (Some 0))
           [exampleTrack 1 (Some (exampleParticle 3 0 True 0 211))]
           [exampleParticle 3 0 True 0 211, exampleParticle 4 0 False 4 11]
           initState))) = 2 \<and>
   refsValid
     (fillDerivedTable True defaultConfig rndZero (exampleCollision 0 (Some 0))
        [exampleTrack 1 (Some (exampleParticle 3 0 True 0 211))]
        [exampleParticle 3 0 True 0 211, exampleParticle 4 0 False 4 11]
        initState) \<and>
   refsValid
     (fillDerivedTable True defaultConfig rndZero (exampleCollision 0 (Some 0))
        [exampleTrack 1 (Some (exampleParticle 3 0 True 0 211))]
        [exampleParticle 3 0 True 0 211, exampleParticle 4 0 False 4 11]
        (fillDerivedTable True defaultConfig rndZero (exampleCollision 0 (Some 0))
           [exampleTrack 1 (Some (exampleParticle 3 0 True 0 211))]
           [exampleParticle 3 0 True 0 211, exampleParticle 4 0 False 4 11]
           initState))"
proof -
  let ?c = "exampleCollision 0 (Some 0)"
  let ?ts = "[exampleTrack 1 (Some (exampleParticle 3 0 True 0 211))]"
  let ?ps = "[exampleParticle 3 0 True 0 211, exampleParticle 4 0 False 4 11]"
  let ?st1 = "fillDerivedTable True defaultConfig rndZero ?c ?ts ?ps initState"
  let ?st2 = "fillDerivedTable True defaultConfig rndZero ?c ?ts ?ps ?st1"
  have a1: "admitted defaultConfig rndZero ?c initState"
    by (simp add: admitted_def isSelectedCollision_def defaultConfig_def exampleCollision_def
        initState_def)
  have a2: "admitted defaultConfig rndZero ?c ?st1"
    using a1
    by (simp add: admitted_def fillDerivedTable_counters)
       (simp add: isSelectedCollision_def defaultConfig_def exampleCollision_def initState_def
          int32_def)
  have sel: "isSelectedTrack True defaultConfig
      (exampleTrack 1 (Some (exampleParticle 3 0 True 0 211)))"
    by (simp add: isSelectedTrack_def defaultConfig_def exampleTrack_def)
  have un: "unreconstructed True defaultConfig ?c ?ts ?ps = [exampleParticle 4 0 False 4 11]"
    by (simp add: unreconstructed_def finalRecoPartIndices_def sliceBy_def
        isSelectedTrack_def defaultConfig_def exampleCollision_def exampleTrack_def
        exampleParticle_def)
  have t1: "tableTracks ?st1 = [trackRow 0 (exampleTrack 1 (Some (exampleParticle 3 0 True 0 211)))]"
    using a1 by (simp add: fillDerivedTable_tables sel) (simp add: initState_def)
  have n1: "tableNonRecoParticles ?st1 = [nonRecoRow 0 (exampleParticle 4 0 False 4 11)]"
    using a1 by (simp add: fillDerivedTable_tables un) (simp add: initState_def)
  have c1: "length (tableCollisions ?st1) = 1"
    using a1 by (simp add: fillDerivedTable_tables) (simp add: initState_def)
  have r1: "refsValid ?st1"
    by (simp add: refsValid_def t1 n1 c1 trackCollisionId_trackRow nonRecoCollisionId_nonRecoRow)
  have t2: "tableTracks ?st2 =
      [trackRow 0 (exampleTrack 1 (Some (exampleParticle 3 0 True 0 211))),
       trackRow 1 (exampleTrack 1 (Some (exampleParticle 3 0 True 0 211)))]"
    unfolding fillDerivedTable_tables(2) [of True defaultConfig rndZero ?c ?ts ?ps ?st1]
    using a2 sel by (simp add: t1 c1)
  have n2: "tableNonRecoParticles ?st2 =
      [nonRecoRow 0 (exampleParticle 4 0 False 4 11),
       nonRecoRow 1 (exampleParticle 4 0 False 4 11)]"
    unfolding fillDerivedTable_tables(4) [of True defaultConfig rndZero ?c ?ts ?ps ?st1]
    using a2 by (simp add: n1 c1 un)
  note inst = child_rows_reference_collision_of_call [OF refl, where IS_MC = True
      and cfg = defaultConfig and rnd = rndZero and collision = ?c and tracks = ?ts
      and particles = ?ps and st = ?st1]
  have ids: "\<forall>row \<in> set (drop (length (tableTracks ?st1)) (tableTracks ?st2)).
      trackCollisionId row = int (length (tableCollisions ?st1)) \<and>
      length (tableCollisions ?st2) = length (tableCollisions ?st1) + 1"
    using inst by blast
  have d2: "drop (length (tableTracks ?st1)) (tableTracks ?st2) =
      [trackRow 1 (exampleTrack 1 (Some (exampleParticle 3 0 True 0 211)))]"
    unfolding t2 t1 by simp
  have len2: "length (tableCollisions ?st2) = 2"
    using ids unfolding d2 c1 by simp
  have r2: "refsValid ?st2"
    using inst r1 by blast
  have m1: "map trackCollisionId (tableTracks ?st2) = [0, 1]"
    unfolding t2 by (simp add: trackCollisionId_trackRow)
  have m2: "map nonRecoCollisionId (tableNonRecoParticles ?st2) = [0, 1]"
    unfolding n2 by (simp add: nonRecoCollisionId_nonRecoRow)
  from m1 m2 len2 r1 r2 show ?thesis by blast
qed

section \<open>Matched and unreconstructed truth particles\<close>

lemma collectedIndices_member:
  "track \<in> set tracks \<Longrightarrow> isSelectedTrack True cfg track \<Longrightarrow> mcParticle track = Some label \<Longrightarrow>
     globalIndex label \<in> set (collectedIndices cfg tracks)"
  by (induction tracks) (auto split: option.splits)

lemma collected_subset_final:
  "set (collectedIndices cfg tracks) \<subseteq> set (finalRecoPartIndices True cfg tracks)"
  by (simp add: finalRecoPartIndices_def)

text \<open>
  No truth particle that a reconstructed-particle row of the call was written from gets a
  non-reconstructed-particle row in the same call.
\<close>

lemma matched_not_unreconstructed:
  assumes "track \<in> set tracks" and "isSelectedTrack True cfg track"
    and "mcParticle track = Some label"
  shows "globalIndex label \<notin> globalIndex ` set (unreconstructed True cfg collision tracks particles)"
proof -
  have "globalIndex label \<in> set (finalRecoPartIndices True cfg tracks)"
    using collectedIndices_member [OF assms] collected_subset_final by blast
  then show ?thesis
    by (auto simp: unreconstructed_def split: option.splits)
qed

text \<open>
  When every selected track has a truth label the buffer holds the collected indices and
  nothing else, and the unreconstructed particles are the particles of the truth
  collision whose index was not collected.
\<close>

lemma unreconstructed_all_matched:
  assumes "length (collectedIndices cfg tracks) = length (filter (isSelectedTrack True cfg) tracks)"
    and "mcCollision collision = Some mcIndex"
  shows "unreconstructed True cfg collision tracks particles =
           filter (\<lambda>particle. globalIndex particle \<notin> set (collectedIndices cfg tracks))
             (sliceBy particles mcIndex)"
  using assms by (simp add: unreconstructed_def finalRecoPartIndices_def)

text \<open>A particle of the truth collision with a nonzero index that was not collected is kept.\<close>

lemma unreconstructed_nonzero_index:
  assumes "mcCollision collision = Some mcIndex"
    and "particle \<in> set (sliceBy particles mcIndex)"
    and "globalIndex particle \<notin> set (collectedIndices cfg tracks)"
    and "globalIndex particle \<noteq> 0"
  shows "particle \<in> set (unreconstructed True cfg collision tracks particles)"
  using assms by (auto simp: unreconstructed_def finalRecoPartIndices_def)

lemma length_filter_not_in:
  assumes "distinct (map f xs)" and "distinct ids" and "set ids \<subseteq> f ` set xs"
  shows "length (filter (\<lambda>x. f x \<notin> set ids) xs) = length xs - length ids"
proof -
  have "length (filter (\<lambda>x. f x \<notin> set ids) xs) = length (filter (\<lambda>y. y \<notin> set ids) (map f xs))"
    by (simp add: filter_map comp_def)
  also have "\<dots> = card ({y. y \<notin> set ids} \<inter> set (map f xs))"
    using assms(1) by (rule distinct_length_filter)
  also have "{y. y \<notin> set ids} \<inter> set (map f xs) = set (map f xs) - set ids"
    by auto
  also have "card (set (map f xs) - set ids) = card (set (map f xs)) - card (set ids)"
    using assms(3) by (intro card_Diff_subset) simp_all
  also have "\<dots> = length xs - length ids"
    using assms(1,2) by (simp add: distinct_card del: set_map)
  finally show ?thesis .
qed

text \<open>
  The row counts of an admitted Monte Carlo call in which every selected track has a
  truth label, the labels are pairwise different particles of the collision's truth
  collision, and the rows of the particle table have pairwise different global indices:
  one collision row, one track row and one reconstructed-particle row for each selected
  track, and one non-reconstructed-particle row for each remaining particle of the truth
  collision. With three selected tracks and five particles: 1, 3, 3 and 2 rows.
\<close>

lemma row_counts_all_matched:
  assumes "admitted cfg rnd collision st"
    and "mcCollision collision = Some mcIndex"
    and "length (collectedIndices cfg tracks) = length (filter (isSelectedTrack True cfg) tracks)"
    and "distinct (collectedIndices cfg tracks)"
    and "set (collectedIndices cfg tracks) \<subseteq> globalIndex ` set (sliceBy particles mcIndex)"
    and "distinct (map globalIndex (sliceBy particles mcIndex))"
  shows "length (tableCollisions (fillDerivedTable True cfg rnd collision tracks particles st)) =
           length (tableCollisions st) + 1"
    and "length (tableTracks (fillDerivedTable True cfg rnd collision tracks particles st)) =
           length (tableTracks st) + length (filter (isSelectedTrack True cfg) tracks)"
    and "length (tableRecoParticles (fillDerivedTable True cfg rnd collision tracks particles st)) =
           length (tableRecoParticles st) + length (filter (isSelectedTrack True cfg) tracks)"
    and "length (tableNonRecoParticles (fillDerivedTable True cfg rnd collision tracks particles st)) =
           length (tableNonRecoParticles st) +
           (length (sliceBy particles mcIndex) - length (filter (isSelectedTrack True cfg) tracks))"
proof -
  show "length (tableCollisions (fillDerivedTable True cfg rnd collision tracks particles st)) =
           length (tableCollisions st) + 1"
    using assms(1) by (simp add: fillDerivedTable_tables)
  show "length (tableTracks (fillDerivedTable True cfg rnd collision tracks particles st)) =
           length (tableTracks st) + length (filter (isSelectedTrack True cfg) tracks)"
    using assms(1) by (simp add: fillDerivedTable_tables)
  show "length (tableRecoParticles (fillDerivedTable True cfg rnd collision tracks particles st)) =
           length (tableRecoParticles st) + length (filter (isSelectedTrack True cfg) tracks)"
    using assms(1) by (simp add: fillDerivedTable_tables)
  have "length (unreconstructed True cfg collision tracks particles) =
          length (sliceBy particles mcIndex) - length (collectedIndices cfg tracks)"
    unfolding unreconstructed_all_matched [OF assms(3,2)]
    using assms(6,4,5) by (rule length_filter_not_in)
  then show "length (tableNonRecoParticles
                (fillDerivedTable True cfg rnd collision tracks particles st)) =
           length (tableNonRecoParticles st) +
           (length (sliceBy particles mcIndex) - length (filter (isSelectedTrack True cfg) tracks))"
    using assms(1,3) by (simp add: fillDerivedTable_tables)
qed

text \<open>
  C1, at a concrete input. A Monte Carlo call with the default configurables on a
  collision linked to truth collision 0, with one selected track that has no truth label
  and two particles of truth collision 0, of global index 0 and 1. No index is collected
  in the track loop, so neither particle is matched. The call writes the collision row,
  the track row and the reconstructed-particle row of the track, and a
  non-reconstructed-particle row for the particle of index 1 only: the buffer
  \<open>recoPartIndices\<close> has one zero-initialised slot for the selected track, which no
  label overwrites, and the search for index 0 finds that slot.
\<close>

theorem particle_of_index_zero_skipped:
  "isSelectedTrack True defaultConfig (exampleTrack 1 None) \<and>
   collectedIndices defaultConfig [exampleTrack 1 None] = [] \<and>
   sliceBy [exampleParticle 0 0 True 0 2212, exampleParticle 1 0 True 0 2212] 0 =
     [exampleParticle 0 0 True 0 2212, exampleParticle 1 0 True 0 2212] \<and>
   processTableMC defaultConfig rndZero (exampleCollision 0 (Some 0))
       [exampleTrack 1 None]
       [exampleParticle 0 0 True 0 2212, exampleParticle 1 0 True 0 2212]
       initState =
     \<lparr>nTableEventCounter = 1, randCalls = 0,
      tableCollisions = [DPGCollision 0 True 0],
      tableTracks = [trackRow 0 (exampleTrack 1 None)],
      tableRecoParticles = [DPGRecoParticle 1 0 0 0 (- 1)],
      tableNonRecoParticles = [nonRecoRow 0 (exampleParticle 1 0 True 0 2212)]\<rparr>"
proof -
  have sel: "isSelectedTrack True defaultConfig (exampleTrack 1 None)"
    by (simp add: isSelectedTrack_def defaultConfig_def exampleTrack_def)
  have col: "collectedIndices defaultConfig [exampleTrack 1 None] = []"
    using sel by (simp add: exampleTrack_def)
  have slice: "sliceBy [exampleParticle 0 0 True 0 2212, exampleParticle 1 0 True 0 2212] 0 =
     [exampleParticle 0 0 True 0 2212, exampleParticle 1 0 True 0 2212]"
    by (simp add: sliceBy_def exampleParticle_def)
  have track: "mcParticle (exampleTrack 1 None) = None"
    "pt (exampleTrack 1 None) = 1" "eta (exampleTrack 1 None) = 0" "phi (exampleTrack 1 None) = 0"
    by (simp_all add: exampleTrack_def)
  have idx: "globalIndex (exampleParticle 0 0 True 0 2212) = 0"
    "globalIndex (exampleParticle 1 0 True 0 2212) = 1"
    by (simp_all add: exampleParticle_def)
  have coll: "isSelectedCollision defaultConfig (exampleCollision 0 (Some 0))"
    "posZ (exampleCollision 0 (Some 0)) = 0" "sel7 (exampleCollision 0 (Some 0))"
    "runNumber (exampleCollision 0 (Some 0)) = 0"
    "mcCollision (exampleCollision 0 (Some 0)) = Some 0"
    by (simp_all add: isSelectedCollision_def defaultConfig_def exampleCollision_def)
  have cfg: "selectMaxVtxZ defaultConfig = 100" "fractionOfSampledEvents defaultConfig = 1"
    "targetNumberOfEvents defaultConfig = 10000000" "\<not> isRun3 defaultConfig"
    by (simp_all add: defaultConfig_def)
  have run: "processTableMC defaultConfig rndZero (exampleCollision 0 (Some 0))
       [exampleTrack 1 None]
       [exampleParticle 0 0 True 0 2212, exampleParticle 1 0 True 0 2212]
       initState =
     \<lparr>nTableEventCounter = 1, randCalls = 0,
      tableCollisions = [DPGCollision 0 True 0],
      tableTracks = [trackRow 0 (exampleTrack 1 None)],
      tableRecoParticles = [DPGRecoParticle 1 0 0 0 (- 1)],
      tableNonRecoParticles = [nonRecoRow 0 (exampleParticle 1 0 True 0 2212)]\<rparr>"
    by (simp add: processTableMC_def fillDerivedTable_def writeTables_def Let_def
        sel track idx coll cfg slice lastIndex_def initState_def int32_def)
  from sel col slice run show ?thesis by blast
qed

end
